theory Spec2Isabelle
  imports Main
begin

section \<open>JavaScript values\<close>

text \<open>
  User data is whatever JSON can carry. Numbers are the integers (the code only tests
  them for zero and compares millisecond timestamps). The JavaScript value
  \<open>undefined\<close> is \<open>None\<close> of an option type; \<open>null\<close> is \<open>JNull\<close>.
\<close>

datatype jsval =
    JNull
  | JBool bool
  | JNum int
  | JStr string
  | JArr "jsval list"
  | JObj "(string \<times> jsval) list"

text \<open>JavaScript truthiness, as used by \<open>!x\<close> and \<open>x || y\<close>.\<close>

fun truthy :: "jsval \<Rightarrow> bool" where
  "truthy JNull = False"
| "truthy (JBool b) = b"
| "truthy (JNum n) = (n \<noteq> 0)"
| "truthy (JStr s) = (s \<noteq> [])"
| "truthy (JArr xs) = True"
| "truthy (JObj kvs) = True"

fun truthy_opt :: "jsval option \<Rightarrow> bool" where
  "truthy_opt None = False"
| "truthy_opt (Some v) = truthy v"

text \<open>The tri-state result \<open>boolean | undefined\<close> of the store contract.\<close>

datatype tri = TTrue | TFalse | TUndefined

text \<open>\<open>r || false\<close> on a tri-state result.\<close>

fun or_false :: "tri \<Rightarrow> tri" where
  "or_false TTrue = TTrue"
| "or_false TFalse = TFalse"
| "or_false TUndefined = TFalse"

section \<open>Responses\<close>

text \<open>
  Modelled from the spec: the response type and its \<open>merge\<close> belong to the HTTP
  library, not to this repository. Only what the session code touches is kept: the
  status, the body and the cookies to set. Mutations compose by ordered merge:
  \<open>Response.merge\<close> keeps the cookie mutations of both sides in call order and lets
  the later status and body win.
\<close>

record cookie_options =
  maxAge :: "int option"
  expires :: "int option"
  httpOnly :: "bool option"
  overwrite :: "bool option"
  sameSite :: "string option"
  domain :: "string option"
  path :: "string option"

record cookie =
  cookie_name :: string
  cookie_value :: string
  cookie_opts :: cookie_options

record response =
  res_status :: "nat option"
  res_body :: "jsval option"
  res_cookies :: "cookie list"

definition Response :: response where
  "Response = \<lparr>res_status = None, res_body = None, res_cookies = []\<rparr>"

definition Response_cookie :: "string \<Rightarrow> string \<Rightarrow> cookie_options \<Rightarrow> response" where
  "Response_cookie name val opts =
     \<lparr>res_status = None, res_body = None,
      res_cookies = [\<lparr>cookie_name = name, cookie_value = val, cookie_opts = opts\<rparr>]\<rparr>"

definition merge :: "response \<Rightarrow> response \<Rightarrow> response" where
  "merge a b =
     \<lparr>res_status = (case res_status b of None \<Rightarrow> res_status a | Some c \<Rightarrow> Some c),
      res_body = (case res_body b of None \<Rightarrow> res_body a | Some x \<Rightarrow> Some x),
      res_cookies = res_cookies a @ res_cookies b\<rparr>"

definition merge_all :: "response list \<Rightarrow> response" where
  "merge_all rs = foldl merge Response rs"

text \<open>\<open>Response.json({ error: msg }).status(code)\<close>\<close>

definition error_response :: "string \<Rightarrow> nat \<Rightarrow> response" where
  "error_response msg code =
     \<lparr>res_status = Some code, res_body = Some (JObj [(''error'', JStr msg)]),
      res_cookies = []\<rparr>"

section \<open>Request-scoped state\<close>

text \<open>
  The world is what the store and the parser may read and write during a request:
  the accumulated response mutations (\<open>sessionHeaderCtx\<close>) and whatever else the
  backend keeps (\<open>ext\<close>). The session context proper (\<open>sessionUserDataCtx\<close> and the
  module-private \<open>modifiedStateCtx\<close>) is outside their reach. \<open>calls\<close> is a log of the
  store operations invoked, kept to state how often the store is called.
\<close>

record 'b world =
  sessionHeaderCtx :: "response list"
  ext :: 'b

datatype event =
    StoreGet string
  | StoreSet jsval
  | StoreCreate "jsval option"
  | StoreDestroy
  | StoreTouch

record 'b rstate =
  sessionUserDataCtx :: "jsval option"
  modifiedStateCtx :: bool
  calls :: "event list"
  world :: "'b world"

record request =
  cookies :: "(string \<times> string) list"

text \<open>
  \<open>SessionStore\<close>: \<open>get\<close> returns data, \<open>null\<close> (\<open>Some JNull\<close>) or \<open>undefined\<close>;
  \<open>create\<close> returns data or \<open>undefined\<close>; \<open>touch\<close> is optional.
\<close>

record 'b sessionStore =
  store_get :: "string \<Rightarrow> 'b world \<Rightarrow> jsval option \<times> 'b world"
  store_set :: "jsval \<Rightarrow> 'b world \<Rightarrow> tri \<times> 'b world"
  store_create :: "jsval option \<Rightarrow> 'b world \<Rightarrow> jsval option \<times> 'b world"
  store_destroy :: "'b world \<Rightarrow> tri \<times> 'b world"
  store_touch :: "('b world \<Rightarrow> tri \<times> 'b world) option"

record 'b sessionParser =
  parser_get :: "request \<Rightarrow> 'b world \<Rightarrow> string option \<times> 'b world"
  parser_set :: "'b world \<Rightarrow> response \<times> 'b world"
  parser_remove :: "'b world \<Rightarrow> response \<times> 'b world"

record 'b sessionConfig =
  autoCreateOnMissing :: bool
  autoSave :: bool
  sessionParser :: "'b sessionParser"
  sessionStore :: "'b sessionStore"

text \<open>\<open>sessionHeaderCtx.set([...sessionHeaderCtx.get(), h])\<close>\<close>

definition push_header :: "response \<Rightarrow> 'b world \<Rightarrow> 'b world" where
  "push_header h w = w\<lparr>sessionHeaderCtx := sessionHeaderCtx w @ [h]\<rparr>"

definition log_call :: "event \<Rightarrow> 'b rstate \<Rightarrow> 'b rstate" where
  "log_call e s = s\<lparr>calls := calls s @ [e]\<rparr>"

section \<open>SessionContext\<close>

text \<open>The intercepted \<open>set\<close> of \<open>createSessionCtx\<close>: mark modified, then store.\<close>

definition ctx_set :: "jsval option \<Rightarrow> 'b rstate \<Rightarrow> 'b rstate" where
  "ctx_set v s = s\<lparr>modifiedStateCtx := True, sessionUserDataCtx := v\<rparr>"

definition ctx_get :: "'b rstate \<Rightarrow> jsval option" where
  "ctx_get s = sessionUserDataCtx s"

definition isModified :: "'b rstate \<Rightarrow> bool" where
  "isModified s = modifiedStateCtx s"

text \<open>The store operations as the middleware invokes them, logged.\<close>

definition call_get :: "'b sessionConfig \<Rightarrow> string \<Rightarrow> 'b rstate \<Rightarrow> jsval option \<times> 'b rstate" where
  "call_get cfg c s =
     (case store_get (sessionStore cfg) c (world s) of
        (r, w) \<Rightarrow> (r, log_call (StoreGet c) (s\<lparr>world := w\<rparr>)))"

definition call_set :: "'b sessionConfig \<Rightarrow> jsval \<Rightarrow> 'b rstate \<Rightarrow> tri \<times> 'b rstate" where
  "call_set cfg d s =
     (case store_set (sessionStore cfg) d (world s) of
        (r, w) \<Rightarrow> (r, log_call (StoreSet d) (s\<lparr>world := w\<rparr>)))"

definition call_create :: "'b sessionConfig \<Rightarrow> jsval option \<Rightarrow> 'b rstate \<Rightarrow> jsval option \<times> 'b rstate" where
  "call_create cfg d s =
     (case store_create (sessionStore cfg) d (world s) of
        (r, w) \<Rightarrow> (r, log_call (StoreCreate d) (s\<lparr>world := w\<rparr>)))"

definition call_destroy :: "'b sessionConfig \<Rightarrow> 'b rstate \<Rightarrow> tri \<times> 'b rstate" where
  "call_destroy cfg s =
     (case store_destroy (sessionStore cfg) (world s) of
        (r, w) \<Rightarrow> (r, log_call StoreDestroy (s\<lparr>world := w\<rparr>)))"

definition call_touch :: "('b world \<Rightarrow> tri \<times> 'b world) \<Rightarrow> 'b rstate \<Rightarrow> tri \<times> 'b rstate" where
  "call_touch t s =
     (case t (world s) of
        (r, w) \<Rightarrow> (r, log_call StoreTouch (s\<lparr>world := w\<rparr>)))"

text \<open>The parser's \<open>set()\<close> / \<open>remove()\<close> followed by queueing the mutation.\<close>

definition emit_set :: "'b sessionConfig \<Rightarrow> 'b rstate \<Rightarrow> 'b rstate" where
  "emit_set cfg s =
     (case parser_set (sessionParser cfg) (world s) of
        (h, w) \<Rightarrow> s\<lparr>world := push_header h w\<rparr>)"

definition emit_remove :: "'b sessionConfig \<Rightarrow> 'b rstate \<Rightarrow> 'b rstate" where
  "emit_remove cfg s =
     (case parser_remove (sessionParser cfg) (world s) of
        (h, w) \<Rightarrow> s\<lparr>world := push_header h w\<rparr>)"

text \<open>\<open>sessionUserDataCtx.regenerate\<close>\<close>

definition regenerate :: "'b sessionConfig \<Rightarrow> 'b rstate \<Rightarrow> tri \<times> 'b rstate" where
  "regenerate cfg s =
     (case ctx_get s of
        None \<Rightarrow> (TFalse, s)
      | Some d \<Rightarrow>
          (case call_create cfg (Some d) s of
             (None, s1) \<Rightarrow> (TUndefined, s1)
           | (Some created, s1) \<Rightarrow> (TTrue, emit_set cfg s1)))"

text \<open>\<open>sessionUserDataCtx.destroy\<close>\<close>

definition destroy :: "'b sessionConfig \<Rightarrow> 'b rstate \<Rightarrow> tri \<times> 'b rstate" where
  "destroy cfg s =
     (case ctx_get s of
        None \<Rightarrow> (TFalse, s)
      | Some d \<Rightarrow>
          (case call_destroy cfg s of
             (TTrue, s1) \<Rightarrow> (TTrue, emit_remove cfg (ctx_set None s1))
           | (r, s1) \<Rightarrow> (r, s1)))"

text \<open>\<open>sessionUserDataCtx.saveToStore\<close>\<close>

definition saveToStore :: "'b sessionConfig \<Rightarrow> 'b rstate \<Rightarrow> tri \<times> 'b rstate" where
  "saveToStore cfg s =
     (case ctx_get s of
        None \<Rightarrow> (TFalse, s)
      | Some d \<Rightarrow>
          if isModified s then
            (case call_set cfg d s of (r, s1) \<Rightarrow> (or_false r, s1))
          else
            (case store_touch (sessionStore cfg) of
               Some t \<Rightarrow> (case call_touch t s of (r, s1) \<Rightarrow> (or_false r, s1))
             | None \<Rightarrow> (case call_set cfg d s of (r, s1) \<Rightarrow> (or_false r, s1))))"

section \<open>The downstream handler\<close>

text \<open>
  A handler is any program over the SessionContext interface: each node performs one
  operation and continues with its result; \<open>Effect\<close> is any other action on the world.
\<close>

datatype 'b handler =
    Return response
  | CtxGet "jsval option \<Rightarrow> 'b handler"
  | CtxSet "jsval option" "'b handler"
  | IsModified "bool \<Rightarrow> 'b handler"
  | SaveToStore "tri \<Rightarrow> 'b handler"
  | Regenerate "tri \<Rightarrow> 'b handler"
  | Destroy "tri \<Rightarrow> 'b handler"
  | Effect "'b world \<Rightarrow> 'b world" "'b handler"

primrec run :: "'b sessionConfig \<Rightarrow> 'b handler \<Rightarrow> 'b rstate \<Rightarrow> response \<times> 'b rstate" where
  "run cfg (Return r) s = (r, s)"
| "run cfg (CtxGet k) s = run cfg (k (ctx_get s)) s"
| "run cfg (CtxSet v h) s = run cfg h (ctx_set v s)"
| "run cfg (IsModified k) s = run cfg (k (isModified s)) s"
| "run cfg (SaveToStore k) s = (case saveToStore cfg s of (r, s1) \<Rightarrow> run cfg (k r) s1)"
| "run cfg (Regenerate k) s = (case regenerate cfg s of (r, s1) \<Rightarrow> run cfg (k r) s1)"
| "run cfg (Destroy k) s = (case destroy cfg s of (r, s1) \<Rightarrow> run cfg (k r) s1)"
| "run cfg (Effect f h) s = run cfg h (s\<lparr>world := f (world s)\<rparr>)"

section \<open>The middleware of createFarrowSession\<close>

text \<open>\<open>createNewAuth\<close>: \<open>Inl\<close> is the error response, \<open>Inr\<close> the state after success.\<close>

definition createNewAuth :: "'b sessionConfig \<Rightarrow> 'b rstate \<Rightarrow> (response \<times> 'b rstate) + 'b rstate" where
  "createNewAuth cfg s =
     (case call_create cfg None s of
        (createResult, s1) \<Rightarrow>
          if truthy_opt createResult
          then Inr (emit_set cfg (ctx_set createResult s1))
          else Inl (error_response ''Internal Server Error'' 500, s1))"

text \<open>The branch for a missing credential, and the branch for a present one.\<close>

definition on_missing :: "'b sessionConfig \<Rightarrow> 'b rstate \<Rightarrow> (response \<times> 'b rstate) + 'b rstate" where
  "on_missing cfg s =
     (let s1 = emit_remove cfg s in
      if autoCreateOnMissing cfg then createNewAuth cfg s1 else Inr s1)"

definition on_present :: "'b sessionConfig \<Rightarrow> string \<Rightarrow> 'b rstate \<Rightarrow> (response \<times> 'b rstate) + 'b rstate" where
  "on_present cfg c s =
     (case call_get cfg c s of
        (None, s1) \<Rightarrow> Inl (error_response ''Internal Server Error'' 500, s1)
      | (Some JNull, s1) \<Rightarrow> createNewAuth cfg s1
      | (Some sessionUserData, s1) \<Rightarrow> Inr (ctx_set (Some sessionUserData) s1))"

text \<open>
  Parsing the credential and populating the context (up to the reset).
  \<open>!unverifiedUserCredentials\<close> holds for \<open>null\<close> and for the empty string.
\<close>

definition populate :: "'b sessionConfig \<Rightarrow> request \<Rightarrow> 'b rstate \<Rightarrow> (response \<times> 'b rstate) + 'b rstate" where
  "populate cfg req s =
     (case parser_get (sessionParser cfg) req (world s) of
        (unverifiedUserCredentials, w0) \<Rightarrow>
          (case unverifiedUserCredentials of
             None \<Rightarrow> on_missing cfg (s\<lparr>world := w0\<rparr>)
           | Some c \<Rightarrow>
               if c = [] then on_missing cfg (s\<lparr>world := w0\<rparr>)
               else on_present cfg c (s\<lparr>world := w0\<rparr>)))"

text \<open>\<open>modifiedStateCtx.set(false)\<close>\<close>

definition reset_modified :: "'b rstate \<Rightarrow> 'b rstate" where
  "reset_modified s = s\<lparr>modifiedStateCtx := False\<rparr>"

text \<open>The state in which \<open>next()\<close> is called, or the short-circuit response.\<close>

definition handler_entry :: "'b sessionConfig \<Rightarrow> request \<Rightarrow> 'b rstate \<Rightarrow> (response \<times> 'b rstate) + 'b rstate" where
  "handler_entry cfg req s =
     (case populate cfg req s of
        Inl e \<Rightarrow> Inl e
      | Inr s1 \<Rightarrow> Inr (reset_modified s1))"

text \<open>\<open>Response.merge(...sessionHeaders).merge(response)\<close>\<close>

definition finish :: "response \<Rightarrow> 'b rstate \<Rightarrow> response \<times> 'b rstate" where
  "finish resp s = (merge (merge_all (sessionHeaderCtx (world s))) resp, s)"

fun save_result :: "string \<Rightarrow> response \<Rightarrow> tri \<times> 'b rstate \<Rightarrow> response \<times> 'b rstate" where
  "save_result msg resp (TUndefined, s) = (error_response ''Internal Server Error'' 500, s)"
| "save_result msg resp (TFalse, s) = (error_response msg 401, s)"
| "save_result msg resp (TTrue, s) = finish resp s"

text \<open>Everything after \<open>next()\<close> has returned \<open>resp\<close>.\<close>

definition after_handler :: "'b sessionConfig \<Rightarrow> response \<Rightarrow> 'b rstate \<Rightarrow> response \<times> 'b rstate" where
  "after_handler cfg resp s =
     (if autoSave cfg then
        (case ctx_get s of
           None \<Rightarrow> finish resp s
         | Some sessionUserData \<Rightarrow>
             if isModified s then
               save_result ''SessionStore Set Failed'' resp (call_set cfg sessionUserData s)
             else
               (case store_touch (sessionStore cfg) of
                  Some t \<Rightarrow> save_result ''Session Touch Failed'' resp (call_touch t s)
                | None \<Rightarrow>
                    save_result ''SessionStore Set Failed'' resp (call_set cfg sessionUserData s)))
      else finish resp s)"

definition middleware :: "'b sessionConfig \<Rightarrow> request \<Rightarrow> 'b handler \<Rightarrow> 'b rstate \<Rightarrow> response \<times> 'b rstate" where
  "middleware cfg req next s =
     (case handler_entry cfg req s of
        Inl e \<Rightarrow> e
      | Inr s1 \<Rightarrow> (case run cfg next s1 of (resp, s2) \<Rightarrow> after_handler cfg resp s2))"

section \<open>The cookie-backed store\<close>

text \<open>
  \<open>sessionMetaDataCtx\<close> carries \<open>{sessionId, expiresTime}\<close> from the store to the
  parser. The store also reads the cookies of the current request, and queues its cookie
  mutations on the header context of the middleware (which its source imports under the
  name \<open>authHeaderCtx\<close>).
\<close>

record sessionMeta =
  sessionId :: string
  expiresTime :: int

record cookie_env =
  sessionMetaDataCtx :: "sessionMeta option"
  requestInfo :: request

text \<open>The plaintext \<open>{ _data, _expires }\<close> that is serialised and encrypted.\<close>

record envelope =
  env_data :: jsval
  env_expires :: int

text \<open>
  The cipher and JSON are library code. \<open>createCipher secret sessionId\<close> is
  \<open>createCipheriv\<close> with the key hashed from the secret and the IV hashed from the
  session id; it may throw (\<open>None\<close>), and so may serialising and encrypting the
  envelope. \<open>createDecipher\<close> likewise, followed by decrypting and \<open>JSON.parse\<close>.
\<close>

record cipher =
  createCipher :: "string \<Rightarrow> string \<Rightarrow> (envelope \<Rightarrow> string option) option"
  createDecipher :: "string \<Rightarrow> string \<Rightarrow> (string \<Rightarrow> envelope option) option"

record storeOptions =
  secret :: string
  sessionStoreKey :: string
  dataCreator :: "(request \<Rightarrow> jsval option \<Rightarrow> jsval) option"
  rolling :: bool
  renew :: bool
  renewBefore :: int
  cookieOptions :: cookie_options

text \<open>
  Modelled from the spec: the utilities module, which is not among the sources, holds
  the fixed duration constants; \<open>oneMinute\<close> is 60 (seconds), as its test states.
\<close>

definition oneMinute :: int where
  "oneMinute = 60"

definition defaultCookieOptions :: cookie_options where
  "defaultCookieOptions =
     \<lparr>maxAge = Some (30 * oneMinute * 1000), expires = None, httpOnly = Some True,
      overwrite = Some True, sameSite = None, domain = None, path = None\<rparr>"

datatype config_error = SecretRequired | RollingAndRenew

text \<open>The two checks made when the store is constructed.\<close>

definition check_options :: "storeOptions \<Rightarrow> config_error + storeOptions" where
  "check_options opts =
     (if secret opts = [] then Inl SecretRequired
      else if rolling opts \<and> renew opts then Inl RollingAndRenew
      else Inr opts)"

text \<open>\<open>options.cookieOptions.maxAge || (30 * oneMinute * 1000)\<close>\<close>

definition maxAge_of :: "storeOptions \<Rightarrow> int" where
  "maxAge_of opts =
     (case maxAge (cookieOptions opts) of
        None \<Rightarrow> 30 * oneMinute * 1000
      | Some m \<Rightarrow> if m = 0 then 30 * oneMinute * 1000 else m)"

text \<open>The mutation that sets the data cookie, and the one that clears it.\<close>

definition data_cookie :: "storeOptions \<Rightarrow> string \<Rightarrow> response" where
  "data_cookie opts encrypted =
     Response_cookie (sessionStoreKey opts) encrypted
       ((cookieOptions opts)\<lparr>maxAge := Some (maxAge_of opts)\<rparr>)"

definition clear_cookie :: "storeOptions \<Rightarrow> response" where
  "clear_cookie opts =
     Response_cookie (sessionStoreKey opts) []
       ((cookieOptions opts)\<lparr>expires := Some 0, maxAge := Some 0\<rparr>)"

definition set_meta :: "sessionMeta option \<Rightarrow> cookie_env world \<Rightarrow> cookie_env world" where
  "set_meta m w = w\<lparr>ext := (ext w)\<lparr>sessionMetaDataCtx := m\<rparr>\<rparr>"

text \<open>
  \<open>options.dataCreator ? options.dataCreator(useRequestInfo(), userData)
  : (userData || {})\<close>
\<close>

definition initialData :: "storeOptions \<Rightarrow> request \<Rightarrow> jsval option \<Rightarrow> jsval" where
  "initialData opts req userData =
     (case dataCreator opts of
        Some f \<Rightarrow> f req userData
      | None \<Rightarrow>
          (case userData of
             None \<Rightarrow> JObj []
           | Some v \<Rightarrow> if truthy v then v else JObj []))"

datatype exn = CipherFailed | EncryptFailed

text \<open>
  \<open>create\<close>: \<open>now\<close> is what \<open>Date.now()\<close> returns and \<open>newId\<close> what \<open>ulid()\<close>
  returns. There is no \<open>try\<close> here, so a failing cipher throws.
\<close>

definition cookie_create ::
  "cipher \<Rightarrow> storeOptions \<Rightarrow> int \<Rightarrow> string \<Rightarrow> jsval option \<Rightarrow> cookie_env world
     \<Rightarrow> (exn \<times> cookie_env world) + (jsval \<times> cookie_env world)" where
  "cookie_create ciph opts now newId userData w =
     (let expiry = now + maxAge_of opts;
          w1 = set_meta (Some \<lparr>sessionId = newId, expiresTime = expiry\<rparr>) w;
          initial = initialData opts (requestInfo (ext w1)) userData
      in case createCipher ciph (secret opts) newId of
           None \<Rightarrow> Inl (CipherFailed, w1)
         | Some enc \<Rightarrow>
             (case enc \<lparr>env_data = initial, env_expires = expiry\<rparr> of
                None \<Rightarrow> Inl (EncryptFailed, w1)
              | Some encrypted \<Rightarrow> Inr (initial, push_header (data_cookie opts encrypted) w1)))"

text \<open>The expiry after an access, by policy.\<close>

definition next_expiry :: "storeOptions \<Rightarrow> int \<Rightarrow> int \<Rightarrow> int" where
  "next_expiry opts now old =
     (if rolling opts then now + maxAge_of opts
      else if renew opts then
        (if old - now < renewBefore opts then now + maxAge_of opts else old)
      else old)"

text \<open>\<open>_expires && _expires < now\<close>\<close>

definition expired :: "envelope \<Rightarrow> int \<Rightarrow> bool" where
  "expired e now = (env_expires e \<noteq> 0 \<and> env_expires e < now)"

text \<open>
  \<open>get\<close>: the first \<open>try\<close> covers the decipher, the decryption and the parse; the
  decrypted value is an envelope, so nothing in the second \<open>try\<close> throws.
\<close>

definition decrypt :: "cipher \<Rightarrow> storeOptions \<Rightarrow> string \<Rightarrow> string \<Rightarrow> envelope option" where
  "decrypt ciph opts sid sessionData =
     (case createDecipher ciph (secret opts) sid of
        None \<Rightarrow> None
      | Some dec \<Rightarrow> dec sessionData)"

definition cookie_get ::
  "cipher \<Rightarrow> storeOptions \<Rightarrow> int \<Rightarrow> string \<Rightarrow> cookie_env world
     \<Rightarrow> jsval option \<times> cookie_env world" where
  "cookie_get ciph opts now sid w =
     (case map_of (cookies (requestInfo (ext w))) (sessionStoreKey opts) of
        None \<Rightarrow> (Some JNull, w)
      | Some sessionData \<Rightarrow>
          (case decrypt ciph opts sid sessionData of
             None \<Rightarrow> (Some JNull, push_header (clear_cookie opts) w)
           | Some decryptedData \<Rightarrow>
               if expired decryptedData now then (Some JNull, w)
               else
                 (let newExpiresTime = next_expiry opts now (env_expires decryptedData)
                  in (Some (env_data decryptedData),
                      set_meta (Some \<lparr>sessionId = sid, expiresTime = newExpiresTime\<rparr>) w))))"

text \<open>\<open>set\<close>: everything is inside one \<open>try\<close>; a throw yields \<open>undefined\<close>.\<close>

definition cookie_set ::
  "cipher \<Rightarrow> storeOptions \<Rightarrow> int \<Rightarrow> jsval \<Rightarrow> cookie_env world \<Rightarrow> tri \<times> cookie_env world" where
  "cookie_set ciph opts now sessionData w =
     (case sessionMetaDataCtx (ext w) of
        None \<Rightarrow> (TFalse, w)
      | Some meta \<Rightarrow>
          (case createCipher ciph (secret opts) (sessionId meta) of
             None \<Rightarrow> (TUndefined, w)
           | Some enc \<Rightarrow>
               (let expiry = next_expiry opts now (expiresTime meta);
                    w1 = set_meta (Some (meta\<lparr>expiresTime := expiry\<rparr>)) w
                in case enc \<lparr>env_data = sessionData, env_expires = expiry\<rparr> of
                     None \<Rightarrow> (TUndefined, w1)
                   | Some encrypted \<Rightarrow> (TTrue, push_header (data_cookie opts encrypted) w1))))"

definition cookie_destroy :: "storeOptions \<Rightarrow> cookie_env world \<Rightarrow> tri \<times> cookie_env world" where
  "cookie_destroy opts w = (TTrue, set_meta None (push_header (clear_cookie opts) w))"

text \<open>
  A cipher given by a finite code book of (secret, session id, plaintext, ciphertext)
  entries, for running the store on concrete inputs.
\<close>

fun book_encrypt :: "(string \<times> string \<times> envelope \<times> string) list \<Rightarrow> string \<Rightarrow> string \<Rightarrow> envelope \<Rightarrow> string option" where
  "book_encrypt [] k i e = None"
| "book_encrypt ((k', i', e', c') # rest) k i e =
     (if k' = k \<and> i' = i \<and> e' = e then Some c' else book_encrypt rest k i e)"

fun book_decrypt :: "(string \<times> string \<times> envelope \<times> string) list \<Rightarrow> string \<Rightarrow> string \<Rightarrow> string \<Rightarrow> envelope option" where
  "book_decrypt [] k i c = None"
| "book_decrypt ((k', i', e', c') # rest) k i c =
     (if k' = k \<and> i' = i \<and> c' = c then Some e' else book_decrypt rest k i c)"

definition book_cipher :: "(string \<times> string \<times> envelope \<times> string) list \<Rightarrow> cipher" where
  "book_cipher book =
     \<lparr>createCipher = (\<lambda>k i. Some (book_encrypt book k i)),
      createDecipher = (\<lambda>k i. Some (book_decrypt book k i))\<rparr>"

section \<open>Mock collaborators\<close>

text \<open>
  A store and a parser that return fixed results and leave the world alone, as the
  mocks of the test suite do; they serve to run the middleware on concrete requests.
\<close>

definition user123 :: jsval where
  "user123 = JObj [(''id'', JStr ''123'')]"

definition mockStore :: "jsval option \<Rightarrow> tri \<Rightarrow> jsval option \<Rightarrow> tri \<Rightarrow> tri option \<Rightarrow> unit sessionStore" where
  "mockStore g st c d t =
     \<lparr>store_get = (\<lambda>cred w. (g, w)),
      store_set = (\<lambda>v w. (st, w)),
      store_create = (\<lambda>v w. (c, w)),
      store_destroy = (\<lambda>w. (d, w)),
      store_touch = (case t of None \<Rightarrow> None | Some r \<Rightarrow> Some (\<lambda>w. (r, w)))\<rparr>"

definition mockParser :: "string option \<Rightarrow> unit sessionParser" where
  "mockParser cred =
     \<lparr>parser_get = (\<lambda>req w. (cred, w)),
      parser_set = (\<lambda>w. (Response_cookie ''sessionId'' ''new-session'' defaultCookieOptions, w)),
      parser_remove = (\<lambda>w. (Response_cookie ''sessionId'' [] defaultCookieOptions, w))\<rparr>"

definition mockConfig :: "bool \<Rightarrow> bool \<Rightarrow> string option \<Rightarrow> unit sessionStore \<Rightarrow> unit sessionConfig" where
  "mockConfig create save cred store =
     \<lparr>autoCreateOnMissing = create, autoSave = save,
      sessionParser = mockParser cred, sessionStore = store\<rparr>"

definition freshState :: "unit rstate" where
  "freshState =
     \<lparr>sessionUserDataCtx = None, modifiedStateCtx = False, calls = [],
      world = \<lparr>sessionHeaderCtx = [], ext = ()\<rparr>\<rparr>"

definition okResponse :: response where
  "okResponse =
     \<lparr>res_status = None, res_body = Some (JObj [(''success'', JBool True)]), res_cookies = []\<rparr>"

definition noRequest :: request where
  "noRequest = \<lparr>cookies = []\<rparr>"

text \<open>
  After \<open>set\<close>: the metadata and the envelope encrypted into the emitted data cookie both
  carry the expiry \<open>x\<close>.
\<close>

definition wrote_expiry ::
  "cipher \<Rightarrow> storeOptions \<Rightarrow> jsval \<Rightarrow> cookie_env world \<Rightarrow> cookie_env world \<Rightarrow> int \<Rightarrow> bool" where
  "wrote_expiry ciph opts d w w' x =
     (case sessionMetaDataCtx (ext w) of
        None \<Rightarrow> False
      | Some m \<Rightarrow>
          sessionMetaDataCtx (ext w') = Some (m\<lparr>expiresTime := x\<rparr>) \<and>
          (case createCipher ciph (secret opts) (sessionId m) of
             None \<Rightarrow> False
           | Some enc \<Rightarrow>
               (case enc \<lparr>env_data = d, env_expires = x\<rparr> of
                  None \<Rightarrow> False
                | Some c \<Rightarrow> sessionHeaderCtx w' = sessionHeaderCtx w @ [data_cookie opts c])))"

section \<open>A concrete cookie store\<close>

text \<open>
  Secret \<open>s\<close>, \<open>maxAge\<close> of one second, the default cookie name, and a code book that
  holds the envelopes the scenarios encrypt.
\<close>

definition user1 :: jsval where
  "user1 = JObj [(''id'', JStr ''1'')]"

definition scenarioOptions :: "bool \<Rightarrow> bool \<Rightarrow> storeOptions" where
  "scenarioOptions roll ren =
     \<lparr>secret = ''s'', sessionStoreKey = ''sess:data'', dataCreator = None,
      rolling = roll, renew = ren, renewBefore = 400,
      cookieOptions = defaultCookieOptions\<lparr>maxAge := Some 1000\<rparr>\<rparr>"

definition scenarioBook :: "(string \<times> string \<times> envelope \<times> string) list" where
  "scenarioBook =
     [(''s'', ''01ARZ3NDEK'', \<lparr>env_data = user1, env_expires = 1000\<rparr>, ''c-user1-1000''),
      (''s'', ''01ARZ3NDEK'', \<lparr>env_data = user1, env_expires = 1700\<rparr>, ''c-user1-1700''),
      (''s'', ''01ARZ3NDEK'', \<lparr>env_data = JObj [], env_expires = 1000\<rparr>, ''c-empty-1000'')]"

definition scenarioWorld :: "(string \<times> string) list \<Rightarrow> sessionMeta option \<Rightarrow> cookie_env world" where
  "scenarioWorld cs m =
     \<lparr>sessionHeaderCtx = [],
      ext = \<lparr>sessionMetaDataCtx = m, requestInfo = \<lparr>cookies = cs\<rparr>\<rparr>\<rparr>"

section \<open>Preservation lemmas\<close>

text \<open>
  The store and the parser cannot reach the session context: a call leaves the data and
  the modification flag as they were.
\<close>

lemma call_set_modified: "call_set cfg d s = (r, s1) \<Longrightarrow> modifiedStateCtx s1 = modifiedStateCtx s \<and> sessionUserDataCtx s1 = sessionUserDataCtx s"
  by (auto simp: call_set_def log_call_def split: prod.splits)

lemma call_touch_modified: "call_touch t s = (r, s1) \<Longrightarrow> modifiedStateCtx s1 = modifiedStateCtx s \<and> sessionUserDataCtx s1 = sessionUserDataCtx s"
  by (auto simp: call_touch_def log_call_def split: prod.splits)

lemma call_create_modified: "call_create cfg d s = (r, s1) \<Longrightarrow> modifiedStateCtx s1 = modifiedStateCtx s \<and> sessionUserDataCtx s1 = sessionUserDataCtx s"
  by (auto simp: call_create_def log_call_def split: prod.splits)

lemma call_destroy_modified: "call_destroy cfg s = (r, s1) \<Longrightarrow> modifiedStateCtx s1 = modifiedStateCtx s \<and> sessionUserDataCtx s1 = sessionUserDataCtx s"
  by (auto simp: call_destroy_def log_call_def split: prod.splits)

lemma emit_set_modified: "modifiedStateCtx (emit_set cfg s) = modifiedStateCtx s \<and> sessionUserDataCtx (emit_set cfg s) = sessionUserDataCtx s"
  by (auto simp: emit_set_def split: prod.splits)

lemma emit_remove_modified: "modifiedStateCtx (emit_remove cfg s) = modifiedStateCtx s \<and> sessionUserDataCtx (emit_remove cfg s) = sessionUserDataCtx s"
  by (auto simp: emit_remove_def split: prod.splits)

lemma saveToStore_keeps: "isModified s \<Longrightarrow> isModified (snd (saveToStore cfg s))"
  by (auto simp: saveToStore_def isModified_def split: option.splits prod.splits dest: call_set_modified call_touch_modified)

lemma regenerate_keeps: "isModified s \<Longrightarrow> isModified (snd (regenerate cfg s))"
  by (auto simp: regenerate_def isModified_def emit_set_modified split: option.splits prod.splits dest: call_create_modified)

lemma destroy_keeps: "isModified s \<Longrightarrow> isModified (snd (destroy cfg s))"
  by (auto simp: destroy_def isModified_def emit_remove_modified ctx_set_def split: option.splits prod.splits tri.splits dest: call_destroy_modified)

lemma ctx_set_marks: "isModified (ctx_set v s)"
  by (simp add: ctx_set_def isModified_def)

lemma run_keeps: "isModified s \<Longrightarrow> isModified (snd (run cfg h s))"
proof (induction h arbitrary: s)
  case (Return r)
  then show ?case by simp
next
  case (CtxGet k)
  then show ?case by simp
next
  case (CtxSet v h)
  then show ?case by (simp add: ctx_set_marks)
next
  case (IsModified k)
  then show ?case by simp
next
  case (SaveToStore k)
  from SaveToStore.prems have "isModified (snd (saveToStore cfg s))" by (rule saveToStore_keeps)
  then show ?case using SaveToStore.IH by (cases "saveToStore cfg s") (simp add: rangeI)
next
  case (Regenerate k)
  from Regenerate.prems have "isModified (snd (regenerate cfg s))" by (rule regenerate_keeps)
  then show ?case using Regenerate.IH by (cases "regenerate cfg s") (simp add: rangeI)
next
  case (Destroy k)
  from Destroy.prems have "isModified (snd (destroy cfg s))" by (rule destroy_keeps)
  then show ?case using Destroy.IH by (cases "destroy cfg s") (simp add: rangeI)
next
  case (Effect f h)
  from Effect.prems have "isModified (s\<lparr>world := f (world s)\<rparr>)" by (simp add: isModified_def)
  then show ?case using Effect.IH by simp
qed

lemma save_result_keeps: "isModified (snd p) \<Longrightarrow> isModified (snd (save_result msg resp p))"
  by (cases p, cases "fst p") (auto simp: finish_def)

lemma after_handler_keeps: "isModified s \<Longrightarrow> isModified (snd (after_handler cfg resp s))"
  apply (auto simp: after_handler_def finish_def split: option.splits intro!: save_result_keeps)
  apply (auto simp: isModified_def call_set_def call_touch_def log_call_def split: prod.splits)
  done


section \<open>The save phase\<close>

lemma error_response_status: "res_status (error_response msg code) = Some code"
  by (simp add: error_response_def)

lemma error_response_cookies: "res_cookies (error_response msg code) = []"
  by (simp add: error_response_def)


text \<open>
  C1. With \<open>autoSave\<close> on, once the handler has returned: if the context holds data
  and the flag is set, the middleware calls \<open>Store.set\<close> with that data exactly once;
  if it holds data and the flag is clear, it calls \<open>Store.touch\<close> when the store has
  one and \<open>Store.set\<close> otherwise. In each case an \<open>undefined\<close> result becomes the
  500 response, \<open>false\<close> the 401 response, and \<open>true\<close> lets the merged response
  through. If the context holds no data, the store is not called at all.
\<close>

theorem autosave_persistence:
  assumes "autoSave cfg" and "after_handler cfg resp s = (resp', s')"
  shows
    "(ctx_get s = Some d \<and> isModified s \<and> store_set (sessionStore cfg) d (world s) = (r, w') \<longrightarrow>
        calls s' = calls s @ [StoreSet d] \<and> world s' = w' \<and>
        (r = TUndefined \<longrightarrow> resp' = error_response ''Internal Server Error'' 500 \<and> res_status resp' = Some 500) \<and>
        (r = TFalse \<longrightarrow> resp' = error_response ''SessionStore Set Failed'' 401 \<and> res_status resp' = Some 401) \<and>
        (r = TTrue \<longrightarrow> resp' = merge (merge_all (sessionHeaderCtx w')) resp)) \<and>
     (ctx_get s = Some d \<and> \<not> isModified s \<and> store_touch (sessionStore cfg) = Some t \<and> t (world s) = (r, w') \<longrightarrow>
        calls s' = calls s @ [StoreTouch] \<and> world s' = w' \<and>
        (r = TUndefined \<longrightarrow> resp' = error_response ''Internal Server Error'' 500 \<and> res_status resp' = Some 500) \<and>
        (r = TFalse \<longrightarrow> resp' = error_response ''Session Touch Failed'' 401 \<and> res_status resp' = Some 401) \<and>
        (r = TTrue \<longrightarrow> resp' = merge (merge_all (sessionHeaderCtx w')) resp)) \<and>
     (ctx_get s = Some d \<and> \<not> isModified s \<and> store_touch (sessionStore cfg) = None \<and>
        store_set (sessionStore cfg) d (world s) = (r, w') \<longrightarrow>
        calls s' = calls s @ [StoreSet d] \<and> world s' = w' \<and>
        (r = TUndefined \<longrightarrow> resp' = error_response ''Internal Server Error'' 500 \<and> res_status resp' = Some 500) \<and>
        (r = TFalse \<longrightarrow> resp' = error_response ''SessionStore Set Failed'' 401 \<and> res_status resp' = Some 401) \<and>
        (r = TTrue \<longrightarrow> resp' = merge (merge_all (sessionHeaderCtx w')) resp)) \<and>
     (ctx_get s = None \<longrightarrow>
        calls s' = calls s \<and> world s' = world s \<and>
        resp' = merge (merge_all (sessionHeaderCtx (world s))) resp)"
  using assms
  by (cases r)
     (auto simp: after_handler_def call_set_def call_touch_def log_call_def finish_def
        error_response_status)

theorem autosave_persistence_witness:
  "autoSave (mockConfig False True (Some ''session-id'') (mockStore (Some user123) TFalse None TTrue None)) \<and>
   after_handler (mockConfig False True (Some ''session-id'') (mockStore (Some user123) TFalse None TTrue None))
      okResponse (ctx_set (Some user123) freshState)
     = (error_response ''SessionStore Set Failed'' 401,
        (ctx_set (Some user123) freshState)\<lparr>calls := [StoreSet user123]\<rparr>) \<and>
   ctx_get (ctx_set (Some user123) freshState) = Some user123 \<and>
   isModified (ctx_set (Some user123) freshState) \<and>
   store_set (sessionStore (mockConfig False True (Some ''session-id'') (mockStore (Some user123) TFalse None TTrue None)))
      user123 (world (ctx_set (Some user123) freshState))
     = (TFalse, world freshState) \<and>
   calls ((ctx_set (Some user123) freshState)\<lparr>calls := [StoreSet user123]\<rparr>)
     = calls (ctx_set (Some user123) freshState) @ [StoreSet user123] \<and>
   res_status (error_response ''SessionStore Set Failed'' 401) = Some 401"
proof -
  let ?cfg = "mockConfig False True (Some ''session-id'') (mockStore (Some user123) TFalse None TTrue None)"
  let ?s = "ctx_set (Some user123) freshState"
  have a: "autoSave ?cfg"
    by (simp add: mockConfig_def)
  have b: "after_handler ?cfg okResponse ?s
     = (error_response ''SessionStore Set Failed'' 401, ?s\<lparr>calls := [StoreSet user123]\<rparr>)"
    by (simp add: after_handler_def mockConfig_def mockStore_def ctx_set_def ctx_get_def
        isModified_def freshState_def call_set_def log_call_def)
  have c: "ctx_get ?s = Some user123 \<and> isModified ?s \<and>
      store_set (sessionStore ?cfg) user123 (world ?s) = (TFalse, world freshState)"
    by (simp add: mockConfig_def mockStore_def ctx_set_def ctx_get_def isModified_def)
  from autosave_persistence [OF a b, of user123 TFalse "world freshState"] a b c
  show ?thesis by simp
qed

section \<open>Merging queued mutations\<close>

lemma res_cookies_merge: "res_cookies (merge a b) = res_cookies a @ res_cookies b"
  by (simp add: merge_def)

lemma res_cookies_foldl_merge:
  "res_cookies (foldl merge a hs) = res_cookies a @ concat (map res_cookies hs)"
  by (induction hs arbitrary: a) (simp_all add: res_cookies_merge)

lemma res_cookies_merge_all: "res_cookies (merge_all hs) = concat (map res_cookies hs)"
  by (simp add: merge_all_def res_cookies_foldl_merge Response_def)

lemma createNewAuth_error:
  "createNewAuth cfg s = Inl e \<Longrightarrow> fst e = error_response ''Internal Server Error'' 500"
  by (auto simp: createNewAuth_def split: prod.splits if_splits)

lemma handler_entry_error:
  "handler_entry cfg req s = Inl e \<Longrightarrow> fst e = error_response ''Internal Server Error'' 500"
  by (auto simp: handler_entry_def populate_def on_missing_def on_present_def Let_def
      split: prod.splits option.splits if_splits sum.splits jsval.splits
      dest: createNewAuth_error)

lemma save_result_shape:
  "save_result msg resp (r, s) = (resp', s') \<Longrightarrow>
     s' = s \<and>
     (resp' = merge (merge_all (sessionHeaderCtx (world s))) resp \<or>
      resp' = error_response ''Internal Server Error'' 500 \<or>
      resp' = error_response msg 401)"
  by (cases r) (auto simp: finish_def)

lemma after_handler_shape:
  assumes "after_handler cfg resp s = (resp', s')"
  shows "resp' = merge (merge_all (sessionHeaderCtx (world s'))) resp \<or>
     (autoSave cfg \<and>
      (resp' = error_response ''Internal Server Error'' 500 \<or>
       resp' = error_response ''SessionStore Set Failed'' 401 \<or>
       resp' = error_response ''Session Touch Failed'' 401))"
proof (cases "autoSave cfg")
  case False
  with assms show ?thesis by (auto simp: after_handler_def finish_def)
next
  case True
  show ?thesis
  proof (cases "ctx_get s")
    case None
    with True assms show ?thesis by (auto simp: after_handler_def finish_def)
  next
    case (Some d)
    show ?thesis
    proof (cases "isModified s")
      case m: True
      obtain r s1 where c: "call_set cfg d s = (r, s1)" by (cases "call_set cfg d s")
      with True Some m assms have "save_result ''SessionStore Set Failed'' resp (r, s1) = (resp', s')"
        by (simp add: after_handler_def)
      from save_result_shape [OF this] True show ?thesis by auto
    next
      case m: False
      show ?thesis
      proof (cases "store_touch (sessionStore cfg)")
        case None
        obtain r s1 where c: "call_set cfg d s = (r, s1)" by (cases "call_set cfg d s")
        with True Some m None assms
        have "save_result ''SessionStore Set Failed'' resp (r, s1) = (resp', s')"
          by (simp add: after_handler_def)
        from save_result_shape [OF this] True show ?thesis by auto
      next
        case (Some t)
        obtain r s1 where c: "call_touch t s = (r, s1)" by (cases "call_touch t s")
        with True \<open>ctx_get s = Some d\<close> m Some assms
        have "save_result ''Session Touch Failed'' resp (r, s1) = (resp', s')"
          by (simp add: after_handler_def)
        from save_result_shape [OF this] True show ?thesis by auto
      qed
    qed
  qed
qed

text \<open>
  C3 (amended). A short-circuit does not carry the queued mutations. When the
  middleware stops before the handler (\<open>Store.get\<close> gave \<open>undefined\<close>, or creating a
  session failed) it returns the bare 500 response, whose cookie list is empty. After
  the handler, either the request completes and every queued mutation is merged, in
  order, in front of the handler's own cookies, or the save step failed and the bare
  500 or 401 response is returned, again with no cookie.
\<close>

theorem short_circuit_response_is_bare:
  assumes "middleware cfg req next s = (resp', s')"
  shows
    "(handler_entry cfg req s = Inl e \<longrightarrow>
        resp' = error_response ''Internal Server Error'' 500 \<and> s' = snd e \<and>
        res_cookies resp' = []) \<and>
     (handler_entry cfg req s = Inr s1 \<and> run cfg next s1 = (r, s2) \<longrightarrow>
        (resp' = merge (merge_all (sessionHeaderCtx (world s'))) r \<and>
         res_cookies resp' = concat (map res_cookies (sessionHeaderCtx (world s'))) @ res_cookies r) \<or>
        (autoSave cfg \<and> res_cookies resp' = [] \<and>
         (resp' = error_response ''Internal Server Error'' 500 \<or>
          resp' = error_response ''SessionStore Set Failed'' 401 \<or>
          resp' = error_response ''Session Touch Failed'' 401)))"
proof (intro conjI impI)
  assume h: "handler_entry cfg req s = Inl e"
  with assms have "e = (resp', s')" by (simp add: middleware_def)
  with handler_entry_error [OF h]
  show "resp' = error_response ''Internal Server Error'' 500" and "s' = snd e"
    and "res_cookies resp' = []"
    by (auto simp: error_response_cookies)
next
  assume h: "handler_entry cfg req s = Inr s1 \<and> run cfg next s1 = (r, s2)"
  with assms have "after_handler cfg r s2 = (resp', s')" by (simp add: middleware_def)
  from after_handler_shape [OF this]
  show "(resp' = merge (merge_all (sessionHeaderCtx (world s'))) r \<and>
         res_cookies resp' = concat (map res_cookies (sessionHeaderCtx (world s'))) @ res_cookies r) \<or>
        (autoSave cfg \<and> res_cookies resp' = [] \<and>
         (resp' = error_response ''Internal Server Error'' 500 \<or>
          resp' = error_response ''SessionStore Set Failed'' 401 \<or>
          resp' = error_response ''Session Touch Failed'' 401))"
    by (auto simp: res_cookies_merge res_cookies_merge_all error_response_cookies)
qed

text \<open>
  No credential, \<open>autoCreateOnMissing\<close> on, and a store whose \<open>create\<close> fails: the
  mutation of \<open>Parser.remove\<close> is queued, and the response returned is the 500 response
  without it.
\<close>

theorem queued_mutations_dropped_counterexample:
  "middleware (mockConfig True False None (mockStore None TTrue None TTrue None)) noRequest
      (Return okResponse) freshState
     = (error_response ''Internal Server Error'' 500,
        \<lparr>sessionUserDataCtx = None, modifiedStateCtx = False, calls = [StoreCreate None],
         world = \<lparr>sessionHeaderCtx = [Response_cookie ''sessionId'' [] defaultCookieOptions],
                  ext = ()\<rparr>\<rparr>) \<and>
   \<not> set (concat (map res_cookies [Response_cookie ''sessionId'' [] defaultCookieOptions]))
       \<subseteq> set (res_cookies (error_response ''Internal Server Error'' 500))"
  by (simp add: middleware_def handler_entry_def populate_def on_missing_def createNewAuth_def
      call_create_def log_call_def emit_remove_def push_header_def mockConfig_def mockStore_def
      mockParser_def freshState_def Response_cookie_def error_response_def)

text \<open>
  The same request as an instance of the theorem.
\<close>

theorem short_circuit_response_is_bare_witness:
  "middleware (mockConfig True False None (mockStore None TTrue None TTrue None)) noRequest
      (Return okResponse) freshState
     = (error_response ''Internal Server Error'' 500,
        \<lparr>sessionUserDataCtx = None, modifiedStateCtx = False, calls = [StoreCreate None],
         world = \<lparr>sessionHeaderCtx = [Response_cookie ''sessionId'' [] defaultCookieOptions],
                  ext = ()\<rparr>\<rparr>) \<and>
   handler_entry (mockConfig True False None (mockStore None TTrue None TTrue None)) noRequest
      freshState
     = Inl (error_response ''Internal Server Error'' 500,
        \<lparr>sessionUserDataCtx = None, modifiedStateCtx = False, calls = [StoreCreate None],
         world = \<lparr>sessionHeaderCtx = [Response_cookie ''sessionId'' [] defaultCookieOptions],
                  ext = ()\<rparr>\<rparr>) \<and>
   res_cookies (error_response ''Internal Server Error'' 500) = []"
proof -
  let ?cfg = "mockConfig True False None (mockStore None TTrue None TTrue None)"
  let ?s' = "\<lparr>sessionUserDataCtx = None, modifiedStateCtx = False, calls = [StoreCreate None],
         world = \<lparr>sessionHeaderCtx = [Response_cookie ''sessionId'' [] defaultCookieOptions],
                  ext = ()\<rparr>\<rparr>"
  have h: "handler_entry ?cfg noRequest freshState
     = Inl (error_response ''Internal Server Error'' 500, ?s')"
    by (simp add: handler_entry_def populate_def on_missing_def createNewAuth_def
        call_create_def log_call_def emit_remove_def push_header_def mockConfig_def
        mockStore_def mockParser_def freshState_def)
  then have m: "middleware ?cfg noRequest (Return okResponse) freshState
     = (error_response ''Internal Server Error'' 500, ?s')"
    by (simp add: middleware_def)
  from short_circuit_response_is_bare [OF m, of "(error_response ''Internal Server Error'' 500, ?s')"] h m
  show ?thesis by simp
qed

section \<open>The session context during a request\<close>

text \<open>
  C4. \<open>saveToStore\<close> is documented to hand on the store's three results. On a store
  whose \<open>set\<close> reports an internal error (\<open>undefined\<close>) it returns \<open>false\<close>:
  \<open>setResult || false\<close> folds the two failures into one.
\<close>

theorem saveToStore_internal_error_reported_as_false:
  "store_set (sessionStore (mockConfig False False (Some ''session-id'')
        (mockStore (Some user123) TUndefined None TTrue None)))
      user123 (world (ctx_set (Some user123) freshState))
     = (TUndefined, world freshState) \<and>
   saveToStore (mockConfig False False (Some ''session-id'')
        (mockStore (Some user123) TUndefined None TTrue None))
      (ctx_set (Some user123) freshState)
     = (TFalse, (ctx_set (Some user123) freshState)\<lparr>calls := [StoreSet user123]\<rparr>)"
  by (simp add: saveToStore_def call_set_def log_call_def mockConfig_def mockStore_def
      ctx_set_def ctx_get_def isModified_def freshState_def)

text \<open>
  C6. When the parser yields a credential and \<open>Store.get\<close> resolves it to data, the
  handler starts in a state where \<open>get()\<close> returns exactly that data and \<open>isModified\<close>
  reads false: populating the context does not count as a modification.
\<close>

theorem resolved_data_at_handler_entry:
  assumes "parser_get (sessionParser cfg) req (world s) = (Some c, w0)" and "c \<noteq> []"
    and "store_get (sessionStore cfg) c w0 = (Some d, w1)" and "d \<noteq> JNull"
  shows "\<exists>s1. handler_entry cfg req s = Inr s1 \<and>
     ctx_get s1 = Some d \<and> \<not> isModified s1 \<and>
     calls s1 = calls s @ [StoreGet c] \<and> world s1 = w1 \<and>
     middleware cfg req next s = (case run cfg next s1 of (resp, s2) \<Rightarrow> after_handler cfg resp s2) \<and>
     run cfg (CtxGet k) s1 = run cfg (k (Some d)) s1 \<and>
     run cfg (IsModified k') s1 = run cfg (k' False) s1"
proof -
  let ?s1 = "reset_modified (ctx_set (Some d) (log_call (StoreGet c) (s\<lparr>world := w1\<rparr>)))"
  from assms have p: "populate cfg req s = Inr (ctx_set (Some d) (log_call (StoreGet c) (s\<lparr>world := w1\<rparr>)))"
    by (cases d) (simp_all add: populate_def on_present_def call_get_def)
  then have h: "handler_entry cfg req s = Inr ?s1"
    by (simp add: handler_entry_def)
  have "ctx_get ?s1 = Some d" and "\<not> isModified ?s1" and "calls ?s1 = calls s @ [StoreGet c]"
    and "world ?s1 = w1"
    by (simp_all add: reset_modified_def ctx_set_def ctx_get_def isModified_def log_call_def)
  with h show ?thesis
    by (simp add: middleware_def)
qed

text \<open>
  The mocked store resolving \<open>session-id\<close> to a user.
\<close>

theorem resolved_data_at_handler_entry_witness:
  "parser_get (sessionParser (mockConfig False False (Some ''session-id'')
        (mockStore (Some user123) TTrue None TTrue None))) noRequest (world freshState)
     = (Some ''session-id'', world freshState) \<and>
   ''session-id'' \<noteq> [] \<and>
   store_get (sessionStore (mockConfig False False (Some ''session-id'')
        (mockStore (Some user123) TTrue None TTrue None))) ''session-id'' (world freshState)
     = (Some user123, world freshState) \<and>
   user123 \<noteq> JNull \<and>
   (\<exists>s1. handler_entry (mockConfig False False (Some ''session-id'')
        (mockStore (Some user123) TTrue None TTrue None)) noRequest freshState = Inr s1 \<and>
      ctx_get s1 = Some user123 \<and> \<not> isModified s1)"
proof -
  let ?cfg = "mockConfig False False (Some ''session-id'') (mockStore (Some user123) TTrue None TTrue None)"
  have a: "parser_get (sessionParser ?cfg) noRequest (world freshState)
     = (Some ''session-id'', world freshState)"
    by (simp add: mockConfig_def mockParser_def)
  have b: "''session-id'' \<noteq> []" by simp
  have c: "store_get (sessionStore ?cfg) ''session-id'' (world freshState)
     = (Some user123, world freshState)"
    by (simp add: mockConfig_def mockStore_def)
  have d: "user123 \<noteq> JNull" by (simp add: user123_def)
  from resolved_data_at_handler_entry [OF a b c d] a b c d
  show ?thesis by blast
qed

text \<open>
  In the request above the flag is true once the context is populated and false when
  the handler starts: the reset of the middleware takes it back.
\<close>

theorem modified_flag_reset_counterexample:
  "populate (mockConfig False False (Some ''session-id'')
        (mockStore (Some user123) TTrue None TTrue None)) noRequest freshState
     = Inr \<lparr>sessionUserDataCtx = Some user123, modifiedStateCtx = True,
            calls = [StoreGet ''session-id''], world = \<lparr>sessionHeaderCtx = [], ext = ()\<rparr>\<rparr> \<and>
   handler_entry (mockConfig False False (Some ''session-id'')
        (mockStore (Some user123) TTrue None TTrue None)) noRequest freshState
     = Inr \<lparr>sessionUserDataCtx = Some user123, modifiedStateCtx = False,
            calls = [StoreGet ''session-id''], world = \<lparr>sessionHeaderCtx = [], ext = ()\<rparr>\<rparr> \<and>
   isModified \<lparr>sessionUserDataCtx = Some user123, modifiedStateCtx = True,
            calls = [StoreGet ''session-id''], world = \<lparr>sessionHeaderCtx = [], ext = ()\<rparr>\<rparr> \<and>
   \<not> isModified \<lparr>sessionUserDataCtx = Some user123, modifiedStateCtx = False,
            calls = [StoreGet ''session-id''], world = \<lparr>sessionHeaderCtx = [], ext = ()\<rparr>\<rparr>"
  by (simp add: handler_entry_def populate_def on_present_def call_get_def log_call_def
      ctx_set_def reset_modified_def isModified_def mockConfig_def mockStore_def mockParser_def
      freshState_def user123_def)

text \<open>
  C8 (amended). From the start of the handler to the end of the request the flag is
  monotonic: once true, no context operation (\<open>set\<close>, \<open>saveToStore\<close>, \<open>regenerate\<close>,
  \<open>destroy\<close>), no handler and not the save phase sets it back to false. The one step
  that clears it is the middleware's reset before the handler runs.
\<close>

theorem modified_monotonic_from_handler_entry:
  assumes "isModified s"
  shows "isModified (ctx_set v s) \<and>
     isModified (snd (saveToStore cfg s)) \<and>
     isModified (snd (regenerate cfg s)) \<and>
     isModified (snd (destroy cfg s)) \<and>
     isModified (snd (run cfg h s)) \<and>
     isModified (snd (after_handler cfg resp (snd (run cfg h s))))"
  using assms
  by (simp add: ctx_set_marks saveToStore_keeps regenerate_keeps destroy_keeps run_keeps
      after_handler_keeps)

text \<open>
  A handler that saves and then destroys, started with the flag set.
\<close>

theorem modified_monotonic_from_handler_entry_witness:
  "isModified (ctx_set (Some user123) freshState) \<and>
   isModified (snd (run (mockConfig False True (Some ''session-id'')
        (mockStore (Some user123) TTrue None TTrue None))
      (SaveToStore (\<lambda>r. Destroy (\<lambda>r'. Return okResponse)))
      (ctx_set (Some user123) freshState)))"
  using modified_monotonic_from_handler_entry
    [of "ctx_set (Some user123) freshState" None
        "mockConfig False True (Some ''session-id'') (mockStore (Some user123) TTrue None TTrue None)"
        "SaveToStore (\<lambda>r. Destroy (\<lambda>r'. Return okResponse))" okResponse]
  by (simp add: ctx_set_def isModified_def)

text \<open>
  C9. When \<open>destroy()\<close> is called with data present and \<open>Store.destroy\<close> succeeds, the
  context holds no data afterwards and \<open>isModified\<close> reads true, whatever it read
  before, and stays true for whatever the handler does next and through the save phase.
\<close>

theorem destroy_clears_and_marks:
  assumes "ctx_get s = Some d" and "store_destroy (sessionStore cfg) (world s) = (TTrue, w1)"
  shows "fst (destroy cfg s) = TTrue \<and>
     ctx_get (snd (destroy cfg s)) = None \<and>
     isModified (snd (destroy cfg s)) \<and>
     run cfg (Destroy k) s = run cfg (k TTrue) (snd (destroy cfg s)) \<and>
     isModified (snd (run cfg rest (snd (destroy cfg s)))) \<and>
     isModified (snd (after_handler cfg resp (snd (run cfg rest (snd (destroy cfg s))))))"
proof -
  let ?s1 = "log_call StoreDestroy (s\<lparr>world := w1\<rparr>)"
  from assms have c: "call_destroy cfg s = (TTrue, ?s1)"
    by (simp add: call_destroy_def)
  with assms have d: "destroy cfg s = (TTrue, emit_remove cfg (ctx_set None ?s1))"
    by (simp add: destroy_def)
  have g: "ctx_get (emit_remove cfg (ctx_set None ?s1)) = None"
    by (simp add: ctx_get_def emit_remove_modified ctx_set_def)
  have m: "isModified (emit_remove cfg (ctx_set None ?s1))"
    by (simp add: isModified_def emit_remove_modified ctx_set_def)
  from d g m show ?thesis
    by (simp add: run_keeps after_handler_keeps)
qed

text \<open>
  Destroying right after the reset, with the flag clear.
\<close>

theorem destroy_clears_and_marks_witness:
  "ctx_get (reset_modified (ctx_set (Some user123) freshState)) = Some user123 \<and>
   store_destroy (sessionStore (mockConfig False True (Some ''session-id'')
        (mockStore (Some user123) TTrue None TTrue None)))
      (world (reset_modified (ctx_set (Some user123) freshState)))
     = (TTrue, world freshState) \<and>
   \<not> isModified (reset_modified (ctx_set (Some user123) freshState)) \<and>
   ctx_get (snd (destroy (mockConfig False True (Some ''session-id'')
        (mockStore (Some user123) TTrue None TTrue None))
      (reset_modified (ctx_set (Some user123) freshState)))) = None \<and>
   isModified (snd (destroy (mockConfig False True (Some ''session-id'')
        (mockStore (Some user123) TTrue None TTrue None))
      (reset_modified (ctx_set (Some user123) freshState))))"
proof -
  let ?cfg = "mockConfig False True (Some ''session-id'') (mockStore (Some user123) TTrue None TTrue None)"
  let ?s = "reset_modified (ctx_set (Some user123) freshState)"
  have a: "ctx_get ?s = Some user123"
    by (simp add: ctx_get_def reset_modified_def ctx_set_def)
  have b: "store_destroy (sessionStore ?cfg) (world ?s) = (TTrue, world freshState)"
    by (simp add: mockConfig_def mockStore_def reset_modified_def ctx_set_def)
  have c: "\<not> isModified ?s"
    by (simp add: isModified_def reset_modified_def)
  from destroy_clears_and_marks [OF a b] a b c show ?thesis by simp
qed

section \<open>The cookie-backed store: reading\<close>

lemma cookie_get_undecryptable:
  assumes "map_of (cookies (requestInfo (ext w))) (sessionStoreKey opts) = Some c"
    and "decrypt ciph opts sid c = None"
  shows "cookie_get ciph opts now sid w = (Some JNull, push_header (clear_cookie opts) w)"
  using assms by (simp add: cookie_get_def)

lemma cookie_get_expired:
  assumes "map_of (cookies (requestInfo (ext w))) (sessionStoreKey opts) = Some c"
    and "decrypt ciph opts sid c = Some e" and "expired e now"
  shows "cookie_get ciph opts now sid w = (Some JNull, w)"
  using assms by (simp add: cookie_get_def)

lemma cookie_get_live:
  assumes "map_of (cookies (requestInfo (ext w))) (sessionStoreKey opts) = Some c"
    and "decrypt ciph opts sid c = Some e" and "\<not> expired e now"
  shows "cookie_get ciph opts now sid w =
     (Some (env_data e),
      set_meta (Some \<lparr>sessionId = sid, expiresTime = next_expiry opts now (env_expires e)\<rparr>) w)"
  using assms by (simp add: cookie_get_def)

lemma sessionMeta_set_meta: "sessionMetaDataCtx (ext (set_meta m w)) = m"
  by (simp add: set_meta_def)

lemma headers_set_meta: "sessionHeaderCtx (set_meta m w) = sessionHeaderCtx w"
  by (simp add: set_meta_def)

lemma request_set_meta: "requestInfo (ext (set_meta m w)) = requestInfo (ext w)"
  by (simp add: set_meta_def)

lemma sessionMeta_push_header: "sessionMetaDataCtx (ext (push_header h w)) = sessionMetaDataCtx (ext w)"
  by (simp add: push_header_def)

lemma headers_push_header: "sessionHeaderCtx (push_header h w) = sessionHeaderCtx w @ [h]"
  by (simp add: push_header_def)

lemma book_decrypt_scenario:
  "decrypt (book_cipher scenarioBook) (scenarioOptions roll ren) ''01ARZ3NDEK'' ''c-user1-1000''
     = Some \<lparr>env_data = user1, env_expires = 1000\<rparr>"
  by (simp add: decrypt_def book_cipher_def scenarioBook_def scenarioOptions_def)

text \<open>
  C2. The scenario of the specification: secret \<open>s\<close>, a session created at time 0
  with data \<open>{id: "1"}\<close> and \<open>maxAge\<close> 1000, read again at time 1500 with the data
  cookie echoed. \<open>get\<close> returns \<open>null\<close>, and the world is unchanged: no mutation
  clearing the data cookie is queued. A cookie that fails to decrypt, read at the same
  moment, does get the clearing mutation.
\<close>

theorem expired_cookie_not_cleared:
  "cookie_create (book_cipher scenarioBook) (scenarioOptions False False) 0 ''01ARZ3NDEK''
      (Some user1) (scenarioWorld [] None)
     = Inr (user1,
        \<lparr>sessionHeaderCtx = [data_cookie (scenarioOptions False False) ''c-user1-1000''],
         ext = \<lparr>sessionMetaDataCtx = Some \<lparr>sessionId = ''01ARZ3NDEK'', expiresTime = 1000\<rparr>,
                requestInfo = \<lparr>cookies = []\<rparr>\<rparr>\<rparr>) \<and>
   cookie_get (book_cipher scenarioBook) (scenarioOptions False False) 1500 ''01ARZ3NDEK''
      (scenarioWorld [(''sess:data'', ''c-user1-1000'')] None)
     = (Some JNull, scenarioWorld [(''sess:data'', ''c-user1-1000'')] None) \<and>
   sessionHeaderCtx (scenarioWorld [(''sess:data'', ''c-user1-1000'')] None) = [] \<and>
   cookie_get (book_cipher scenarioBook) (scenarioOptions False False) 1500 ''01ARZ3NDEK''
      (scenarioWorld [(''sess:data'', ''garbled'')] None)
     = (Some JNull,
        \<lparr>sessionHeaderCtx = [clear_cookie (scenarioOptions False False)],
         ext = \<lparr>sessionMetaDataCtx = None,
                requestInfo = \<lparr>cookies = [(''sess:data'', ''garbled'')]\<rparr>\<rparr>\<rparr>)"
  by (simp add: cookie_create_def cookie_get_def decrypt_def expired_def book_cipher_def
      scenarioBook_def scenarioOptions_def scenarioWorld_def initialData_def user1_def
      maxAge_of_def defaultCookieOptions_def set_meta_def push_header_def)

section \<open>The cookie-backed store: expiry policy\<close>

lemma check_options_exclusive:
  "check_options opts = Inr opts \<Longrightarrow> renew opts \<Longrightarrow> \<not> rolling opts"
  by (auto simp: check_options_def split: if_splits)

lemma cookie_set_wrote:
  assumes "cookie_set ciph opts now d w = (TTrue, w')"
  shows "\<exists>m. sessionMetaDataCtx (ext w) = Some m \<and>
     wrote_expiry ciph opts d w w' (next_expiry opts now (expiresTime m))"
proof (cases "sessionMetaDataCtx (ext w)")
  case None
  with assms show ?thesis by (simp add: cookie_set_def)
next
  case (Some m)
  show ?thesis
  proof (cases "createCipher ciph (secret opts) (sessionId m)")
    case None
    with Some assms show ?thesis by (simp add: cookie_set_def)
  next
    case enc: (Some enc)
    let ?x = "next_expiry opts now (expiresTime m)"
    show ?thesis
    proof (cases "enc \<lparr>env_data = d, env_expires = ?x\<rparr>")
      case None
      with Some enc assms show ?thesis by (simp add: cookie_set_def Let_def)
    next
      case c: (Some c)
      with Some enc assms
      have "w' = push_header (data_cookie opts c) (set_meta (Some (m\<lparr>expiresTime := ?x\<rparr>)) w)"
        by (simp add: cookie_set_def Let_def)
      with Some enc c have "wrote_expiry ciph opts d w w' ?x"
        by (simp add: wrote_expiry_def sessionMeta_set_meta sessionMeta_push_header
            headers_push_header headers_set_meta)
      with Some show ?thesis by simp
    qed
  qed
qed

text \<open>
  C5. For a store that passed the construction checks. A successful \<open>get\<close> publishes,
  and a successful \<open>set\<close> publishes and encrypts into the data cookie, an expiry that
  is: \<open>now + maxAge\<close> under \<open>rolling\<close>; under \<open>renew\<close> the old expiry when
  \<open>old - now \<ge> renewBefore\<close> and \<open>now + maxAge\<close> when \<open>old - now < renewBefore\<close>;
  the old expiry when neither flag is set. For \<open>get\<close> the old expiry is the one in the
  decrypted envelope, for \<open>set\<close> the one in the current metadata.
\<close>

theorem expiry_policy:
  assumes "check_options opts = Inr opts"
  shows
    "(map_of (cookies (requestInfo (ext w))) (sessionStoreKey opts) = Some c \<and>
      decrypt ciph opts sid c = Some e \<and> \<not> expired e now \<longrightarrow>
        fst (cookie_get ciph opts now sid w) = Some (env_data e) \<and>
        (rolling opts \<longrightarrow>
           sessionMetaDataCtx (ext (snd (cookie_get ciph opts now sid w)))
             = Some \<lparr>sessionId = sid, expiresTime = now + maxAge_of opts\<rparr>) \<and>
        (renew opts \<and> renewBefore opts \<le> env_expires e - now \<longrightarrow>
           sessionMetaDataCtx (ext (snd (cookie_get ciph opts now sid w)))
             = Some \<lparr>sessionId = sid, expiresTime = env_expires e\<rparr>) \<and>
        (renew opts \<and> env_expires e - now < renewBefore opts \<longrightarrow>
           sessionMetaDataCtx (ext (snd (cookie_get ciph opts now sid w)))
             = Some \<lparr>sessionId = sid, expiresTime = now + maxAge_of opts\<rparr>) \<and>
        (\<not> rolling opts \<and> \<not> renew opts \<longrightarrow>
           sessionMetaDataCtx (ext (snd (cookie_get ciph opts now sid w)))
             = Some \<lparr>sessionId = sid, expiresTime = env_expires e\<rparr>)) \<and>
     (sessionMetaDataCtx (ext v) = Some m \<and> cookie_set ciph opts now d v = (TTrue, w') \<longrightarrow>
        (rolling opts \<longrightarrow> wrote_expiry ciph opts d v w' (now + maxAge_of opts)) \<and>
        (renew opts \<and> renewBefore opts \<le> expiresTime m - now \<longrightarrow>
           wrote_expiry ciph opts d v w' (expiresTime m)) \<and>
        (renew opts \<and> expiresTime m - now < renewBefore opts \<longrightarrow>
           wrote_expiry ciph opts d v w' (now + maxAge_of opts)) \<and>
        (\<not> rolling opts \<and> \<not> renew opts \<longrightarrow> wrote_expiry ciph opts d v w' (expiresTime m)))"
proof (intro conjI impI)
  assume g: "map_of (cookies (requestInfo (ext w))) (sessionStoreKey opts) = Some c \<and>
      decrypt ciph opts sid c = Some e \<and> \<not> expired e now"
  then have live: "cookie_get ciph opts now sid w =
     (Some (env_data e),
      set_meta (Some \<lparr>sessionId = sid, expiresTime = next_expiry opts now (env_expires e)\<rparr>) w)"
    by (simp add: cookie_get_live)
  show "fst (cookie_get ciph opts now sid w) = Some (env_data e)"
    by (simp add: live)
  { assume "rolling opts"
    then show "sessionMetaDataCtx (ext (snd (cookie_get ciph opts now sid w)))
             = Some \<lparr>sessionId = sid, expiresTime = now + maxAge_of opts\<rparr>"
      by (simp add: live sessionMeta_set_meta next_expiry_def) }
  { assume r: "renew opts \<and> renewBefore opts \<le> env_expires e - now"
    with check_options_exclusive [OF assms] have "\<not> rolling opts" by simp
    with r show "sessionMetaDataCtx (ext (snd (cookie_get ciph opts now sid w)))
             = Some \<lparr>sessionId = sid, expiresTime = env_expires e\<rparr>"
      by (simp add: live sessionMeta_set_meta next_expiry_def) }
  { assume r: "renew opts \<and> env_expires e - now < renewBefore opts"
    with check_options_exclusive [OF assms] have "\<not> rolling opts" by simp
    with r show "sessionMetaDataCtx (ext (snd (cookie_get ciph opts now sid w)))
             = Some \<lparr>sessionId = sid, expiresTime = now + maxAge_of opts\<rparr>"
      by (simp add: live sessionMeta_set_meta next_expiry_def) }
  { assume "\<not> rolling opts \<and> \<not> renew opts"
    then show "sessionMetaDataCtx (ext (snd (cookie_get ciph opts now sid w)))
             = Some \<lparr>sessionId = sid, expiresTime = env_expires e\<rparr>"
      by (simp add: live sessionMeta_set_meta next_expiry_def) }
next
  assume s: "sessionMetaDataCtx (ext v) = Some m \<and> cookie_set ciph opts now d v = (TTrue, w')"
  with cookie_set_wrote [of ciph opts now d v w']
  have wr: "wrote_expiry ciph opts d v w' (next_expiry opts now (expiresTime m))"
    by auto
  { assume "rolling opts"
    with wr show "wrote_expiry ciph opts d v w' (now + maxAge_of opts)"
      by (simp add: next_expiry_def) }
  { assume r: "renew opts \<and> renewBefore opts \<le> expiresTime m - now"
    with check_options_exclusive [OF assms] have "\<not> rolling opts" by simp
    with r wr show "wrote_expiry ciph opts d v w' (expiresTime m)"
      by (simp add: next_expiry_def) }
  { assume r: "renew opts \<and> expiresTime m - now < renewBefore opts"
    with check_options_exclusive [OF assms] have "\<not> rolling opts" by simp
    with r wr show "wrote_expiry ciph opts d v w' (now + maxAge_of opts)"
      by (simp add: next_expiry_def) }
  { assume "\<not> rolling opts \<and> \<not> renew opts"
    with wr show "wrote_expiry ciph opts d v w' (expiresTime m)"
      by (simp add: next_expiry_def) }
qed

text \<open>
  The \<open>renew\<close> policy with 300 ms left and \<open>renewBefore\<close> 400: both \<open>get\<close> and
  \<open>set\<close> at time 700 move the expiry from 1000 to 1700.
\<close>

theorem expiry_policy_witness:
  "check_options (scenarioOptions False True) = Inr (scenarioOptions False True) \<and>
   map_of (cookies (requestInfo (ext (scenarioWorld [(''sess:data'', ''c-user1-1000'')] None))))
      (sessionStoreKey (scenarioOptions False True)) = Some ''c-user1-1000'' \<and>
   decrypt (book_cipher scenarioBook) (scenarioOptions False True) ''01ARZ3NDEK'' ''c-user1-1000''
     = Some \<lparr>env_data = user1, env_expires = 1000\<rparr> \<and>
   \<not> expired \<lparr>env_data = user1, env_expires = 1000\<rparr> 700 \<and>
   renew (scenarioOptions False True) \<and>
   env_expires \<lparr>env_data = user1, env_expires = 1000\<rparr> - 700
     < renewBefore (scenarioOptions False True) \<and>
   sessionMetaDataCtx (ext (snd (cookie_get (book_cipher scenarioBook) (scenarioOptions False True)
      700 ''01ARZ3NDEK'' (scenarioWorld [(''sess:data'', ''c-user1-1000'')] None))))
     = Some \<lparr>sessionId = ''01ARZ3NDEK'', expiresTime = 1700\<rparr> \<and>
   sessionMetaDataCtx (ext (scenarioWorld [] (Some \<lparr>sessionId = ''01ARZ3NDEK'', expiresTime = 1000\<rparr>)))
     = Some \<lparr>sessionId = ''01ARZ3NDEK'', expiresTime = 1000\<rparr> \<and>
   cookie_set (book_cipher scenarioBook) (scenarioOptions False True) 700 user1
      (scenarioWorld [] (Some \<lparr>sessionId = ''01ARZ3NDEK'', expiresTime = 1000\<rparr>))
     = (TTrue,
        \<lparr>sessionHeaderCtx = [data_cookie (scenarioOptions False True) ''c-user1-1700''],
         ext = \<lparr>sessionMetaDataCtx = Some \<lparr>sessionId = ''01ARZ3NDEK'', expiresTime = 1700\<rparr>,
                requestInfo = \<lparr>cookies = []\<rparr>\<rparr>\<rparr>) \<and>
   wrote_expiry (book_cipher scenarioBook) (scenarioOptions False True) user1
      (scenarioWorld [] (Some \<lparr>sessionId = ''01ARZ3NDEK'', expiresTime = 1000\<rparr>))
      \<lparr>sessionHeaderCtx = [data_cookie (scenarioOptions False True) ''c-user1-1700''],
       ext = \<lparr>sessionMetaDataCtx = Some \<lparr>sessionId = ''01ARZ3NDEK'', expiresTime = 1700\<rparr>,
              requestInfo = \<lparr>cookies = []\<rparr>\<rparr>\<rparr>
      1700"
proof -
  let ?O = "scenarioOptions False True"
  let ?C = "book_cipher scenarioBook"
  let ?m = "\<lparr>sessionId = ''01ARZ3NDEK'', expiresTime = 1000\<rparr>"
  let ?e = "\<lparr>env_data = user1, env_expires = 1000\<rparr>"
  let ?W = "scenarioWorld [(''sess:data'', ''c-user1-1000'')] None"
  let ?V = "scenarioWorld [] (Some ?m)"
  let ?V' = "\<lparr>sessionHeaderCtx = [data_cookie ?O ''c-user1-1700''],
       ext = \<lparr>sessionMetaDataCtx = Some \<lparr>sessionId = ''01ARZ3NDEK'', expiresTime = 1700\<rparr>,
              requestInfo = \<lparr>cookies = []\<rparr>\<rparr>\<rparr>"
  have a: "check_options ?O = Inr ?O"
    by (simp add: check_options_def scenarioOptions_def)
  have b: "map_of (cookies (requestInfo (ext ?W))) (sessionStoreKey ?O) = Some ''c-user1-1000''"
    by (simp add: scenarioWorld_def scenarioOptions_def)
  have c: "decrypt ?C ?O ''01ARZ3NDEK'' ''c-user1-1000'' = Some ?e"
    by (rule book_decrypt_scenario)
  have d: "\<not> expired ?e 700"
    by (simp add: expired_def)
  have e: "renew ?O \<and> env_expires ?e - 700 < renewBefore ?O \<and> maxAge_of ?O = 1000"
    by (simp add: scenarioOptions_def maxAge_of_def defaultCookieOptions_def)
  have f: "sessionMetaDataCtx (ext ?V) = Some ?m"
    by (simp add: scenarioWorld_def)
  have g: "cookie_set ?C ?O 700 user1 ?V = (TTrue, ?V')"
    by (simp add: cookie_set_def next_expiry_def book_cipher_def scenarioBook_def
        scenarioOptions_def scenarioWorld_def user1_def maxAge_of_def defaultCookieOptions_def
        set_meta_def push_header_def)
  have h: "(700::int) + maxAge_of ?O = 1700"
    by (simp add: scenarioOptions_def maxAge_of_def defaultCookieOptions_def)
  from e have e1: "renew ?O" and e2: "env_expires ?e - 700 < renewBefore ?O"
    by simp_all
  have e3: "expiresTime ?m - 700 < renewBefore ?O"
    by (simp add: scenarioOptions_def)
  from expiry_policy [OF a, where w = ?W and c = "''c-user1-1000''" and ciph = ?C
      and sid = "''01ARZ3NDEK''" and e = ?e and now = 700 and m = ?m and d = user1
      and w' = ?V' and v = ?V] b c d e1 e2 e3 f g
  have "sessionMetaDataCtx (ext (snd (cookie_get ?C ?O 700 ''01ARZ3NDEK'' ?W)))
       = Some \<lparr>sessionId = ''01ARZ3NDEK'', expiresTime = 700 + maxAge_of ?O\<rparr>"
    and "wrote_expiry ?C ?O user1 ?V ?V' (700 + maxAge_of ?O)"
    by blast+
  then have r: "sessionMetaDataCtx (ext (snd (cookie_get ?C ?O 700 ''01ARZ3NDEK'' ?W)))
       = Some \<lparr>sessionId = ''01ARZ3NDEK'', expiresTime = 1700\<rparr>"
    and r': "wrote_expiry ?C ?O user1 ?V ?V' 1700"
    by (simp_all only: h)
  from a b c d e1 e2 f g r r' show ?thesis by blast
qed

section \<open>The cookie-backed store: creating\<close>

lemma cookie_create_result:
  assumes "cookie_create ciph opts now newId userData w = Inr (created, w1)"
  shows "created = initialData opts (requestInfo (ext w)) userData \<and>
     (\<exists>enc c. createCipher ciph (secret opts) newId = Some enc \<and>
        enc \<lparr>env_data = created, env_expires = now + maxAge_of opts\<rparr> = Some c \<and>
        w1 = push_header (data_cookie opts c)
               (set_meta (Some \<lparr>sessionId = newId, expiresTime = now + maxAge_of opts\<rparr>) w))"
  using assms
  by (auto simp: cookie_create_def Let_def request_set_meta split: option.splits)

lemma data_cookie_value: "data_cookie opts c = data_cookie opts c' \<Longrightarrow> c = c'"
  by (simp add: data_cookie_def Response_cookie_def)

text \<open>
  C7 (amended). \<open>create\<close> at time \<open>t0\<close> returns data and emits the data cookie
  with ciphertext \<open>c\<close>; the cipher decrypts, under the same session id, what it
  encrypted. A \<open>get\<close> at any time \<open>t1\<close> not past \<open>t0 + maxAge\<close>, with the credential
  set by \<open>create\<close> and the cookie echoed in the request, returns the value \<open>create\<close>
  returned and stored. That is the supplied value whenever it is truthy and no
  \<open>dataCreator\<close> is configured.
\<close>

theorem create_then_get_roundtrip:
  assumes create: "cookie_create ciph opts t0 newId userData w = Inr (created, w1)"
    and emitted: "sessionHeaderCtx w1 = sessionHeaderCtx w @ [data_cookie opts c]"
    and inverse: "\<And>enc e. createCipher ciph (secret opts) newId = Some enc \<Longrightarrow>
        enc e = Some c \<Longrightarrow> decrypt ciph opts newId c = Some e"
    and echoed: "map_of (cookies (requestInfo (ext w2))) (sessionStoreKey opts) = Some c"
    and time: "t1 \<le> t0 + maxAge_of opts"
  shows "sessionMetaDataCtx (ext w1)
       = Some \<lparr>sessionId = newId, expiresTime = t0 + maxAge_of opts\<rparr> \<and>
     created = initialData opts (requestInfo (ext w)) userData \<and>
     fst (cookie_get ciph opts t1 newId w2) = Some created \<and>
     (dataCreator opts = None \<and> userData = Some d \<and> truthy d \<longrightarrow>
        fst (cookie_get ciph opts t1 newId w2) = Some d)"
proof -
  from cookie_create_result [OF create] obtain enc c'
    where init: "created = initialData opts (requestInfo (ext w)) userData"
      and enc: "createCipher ciph (secret opts) newId = Some enc"
      and c': "enc \<lparr>env_data = created, env_expires = t0 + maxAge_of opts\<rparr> = Some c'"
      and w1: "w1 = push_header (data_cookie opts c')
               (set_meta (Some \<lparr>sessionId = newId, expiresTime = t0 + maxAge_of opts\<rparr>) w)"
    by blast
  from w1 have meta: "sessionMetaDataCtx (ext w1)
       = Some \<lparr>sessionId = newId, expiresTime = t0 + maxAge_of opts\<rparr>"
    by (simp add: sessionMeta_push_header sessionMeta_set_meta)
  from w1 emitted have "data_cookie opts c' = data_cookie opts c"
    by (simp add: headers_push_header headers_set_meta)
  then have "c' = c" by (rule data_cookie_value)
  with inverse [OF enc] c'
  have dec: "decrypt ciph opts newId c
       = Some \<lparr>env_data = created, env_expires = t0 + maxAge_of opts\<rparr>"
    by simp
  from time have live: "\<not> expired \<lparr>env_data = created, env_expires = t0 + maxAge_of opts\<rparr> t1"
    by (simp add: expired_def)
  from cookie_get_live [OF echoed dec live]
  have get: "fst (cookie_get ciph opts t1 newId w2) = Some created"
    by simp
  have "dataCreator opts = None \<and> userData = Some d \<and> truthy d \<longrightarrow> created = d"
    by (simp add: init initialData_def)
  with meta init get show ?thesis by simp
qed

text \<open>
  Created at time 0, read at time 500, with the code-book cipher.
\<close>

theorem create_then_get_roundtrip_witness:
  "cookie_create (book_cipher scenarioBook) (scenarioOptions False False) 0 ''01ARZ3NDEK''
      (Some user1) (scenarioWorld [] None)
     = Inr (user1,
        \<lparr>sessionHeaderCtx = [data_cookie (scenarioOptions False False) ''c-user1-1000''],
         ext = \<lparr>sessionMetaDataCtx = Some \<lparr>sessionId = ''01ARZ3NDEK'', expiresTime = 1000\<rparr>,
                requestInfo = \<lparr>cookies = []\<rparr>\<rparr>\<rparr>) \<and>
   map_of (cookies (requestInfo (ext (scenarioWorld [(''sess:data'', ''c-user1-1000'')] None))))
      (sessionStoreKey (scenarioOptions False False)) = Some ''c-user1-1000'' \<and>
   (500::int) \<le> 0 + maxAge_of (scenarioOptions False False) \<and>
   truthy user1 \<and>
   fst (cookie_get (book_cipher scenarioBook) (scenarioOptions False False) 500 ''01ARZ3NDEK''
      (scenarioWorld [(''sess:data'', ''c-user1-1000'')] None)) = Some user1"
proof -
  let ?O = "scenarioOptions False False"
  let ?C = "book_cipher scenarioBook"
  let ?w1 = "\<lparr>sessionHeaderCtx = [data_cookie ?O ''c-user1-1000''],
         ext = \<lparr>sessionMetaDataCtx = Some \<lparr>sessionId = ''01ARZ3NDEK'', expiresTime = 1000\<rparr>,
                requestInfo = \<lparr>cookies = []\<rparr>\<rparr>\<rparr>"
  let ?w2 = "scenarioWorld [(''sess:data'', ''c-user1-1000'')] None"
  have a: "cookie_create ?C ?O 0 ''01ARZ3NDEK'' (Some user1) (scenarioWorld [] None)
     = Inr (user1, ?w1)"
    by (simp add: cookie_create_def book_cipher_def scenarioBook_def scenarioOptions_def
        scenarioWorld_def initialData_def user1_def maxAge_of_def defaultCookieOptions_def
        set_meta_def push_header_def)
  have b: "sessionHeaderCtx ?w1
     = sessionHeaderCtx (scenarioWorld [] None) @ [data_cookie ?O ''c-user1-1000'']"
    by (simp add: scenarioWorld_def)
  have c: "\<And>enc e. createCipher ?C (secret ?O) ''01ARZ3NDEK'' = Some enc \<Longrightarrow>
        enc e = Some ''c-user1-1000'' \<Longrightarrow> decrypt ?C ?O ''01ARZ3NDEK'' ''c-user1-1000'' = Some e"
    by (auto simp: book_cipher_def scenarioBook_def scenarioOptions_def decrypt_def
        split: if_splits)
  have d: "map_of (cookies (requestInfo (ext ?w2))) (sessionStoreKey ?O) = Some ''c-user1-1000''"
    by (simp add: scenarioWorld_def scenarioOptions_def)
  have e: "(500::int) \<le> 0 + maxAge_of ?O"
    by (simp add: scenarioOptions_def maxAge_of_def defaultCookieOptions_def)
  have f: "truthy user1"
    by (simp add: user1_def)
  from create_then_get_roundtrip [OF a b c d e, where d = user1] a d e f
  show ?thesis by simp
qed

text \<open>
  Created with the empty string, a present user data value: the value read back is the
  empty object, not the empty string.
\<close>

theorem roundtrip_falsy_counterexample:
  "cookie_create (book_cipher scenarioBook) (scenarioOptions False False) 0 ''01ARZ3NDEK''
      (Some (JStr [])) (scenarioWorld [] None)
     = Inr (JObj [],
        \<lparr>sessionHeaderCtx = [data_cookie (scenarioOptions False False) ''c-empty-1000''],
         ext = \<lparr>sessionMetaDataCtx = Some \<lparr>sessionId = ''01ARZ3NDEK'', expiresTime = 1000\<rparr>,
                requestInfo = \<lparr>cookies = []\<rparr>\<rparr>\<rparr>) \<and>
   fst (cookie_get (book_cipher scenarioBook) (scenarioOptions False False) 0 ''01ARZ3NDEK''
      (scenarioWorld [(''sess:data'', ''c-empty-1000'')] None)) = Some (JObj []) \<and>
   fst (cookie_get (book_cipher scenarioBook) (scenarioOptions False False) 0 ''01ARZ3NDEK''
      (scenarioWorld [(''sess:data'', ''c-empty-1000'')] None)) \<noteq> Some (JStr [])"
  by (simp add: cookie_create_def cookie_get_def decrypt_def expired_def next_expiry_def
      book_cipher_def scenarioBook_def scenarioOptions_def scenarioWorld_def initialData_def
      user1_def maxAge_of_def defaultCookieOptions_def set_meta_def push_header_def)

text \<open>\<open>regenerate\<close> hands the current data to \<open>Store.create\<close> whenever it is defined.\<close>

lemma regenerate_passes_data:
  "ctx_get s = Some d \<Longrightarrow> calls (snd (regenerate cfg s)) = calls s @ [StoreCreate (Some d)]"
  by (auto simp: regenerate_def call_create_def log_call_def emit_set_def
      split: prod.splits option.splits)

text \<open>
  C10. Without a \<open>dataCreator\<close>, \<open>create\<close> called with a falsy value, absent or
  present (the empty string and 0 are falsy), stores and returns the empty object: the
  envelope encrypted into the data cookie holds \<open>{}\<close>. \<open>regenerate\<close> passes any
  defined value on to \<open>create\<close>, so a present falsy value is replaced.
\<close>

theorem create_replaces_falsy_data:
  assumes "dataCreator opts = None" and "\<not> truthy_opt userData"
  shows "initialData opts req userData = JObj [] \<and>
     (cookie_create ciph opts now newId userData w = Inr (created, w1) \<longrightarrow>
        created = JObj [] \<and>
        (\<exists>enc c. createCipher ciph (secret opts) newId = Some enc \<and>
           enc \<lparr>env_data = JObj [], env_expires = now + maxAge_of opts\<rparr> = Some c \<and>
           w1 = push_header (data_cookie opts c)
                  (set_meta (Some \<lparr>sessionId = newId, expiresTime = now + maxAge_of opts\<rparr>) w))) \<and>
     \<not> truthy_opt None \<and> \<not> truthy_opt (Some (JStr [])) \<and> \<not> truthy_opt (Some (JNum 0)) \<and>
     (ctx_get s = userData \<and> userData \<noteq> None \<longrightarrow>
        calls (snd (regenerate cfg s)) = calls s @ [StoreCreate userData])"
proof -
  from assms have i: "\<And>r. initialData opts r userData = JObj []"
    by (cases userData) (simp_all add: initialData_def)
  have "cookie_create ciph opts now newId userData w = Inr (created, w1) \<longrightarrow>
        created = JObj [] \<and>
        (\<exists>enc c. createCipher ciph (secret opts) newId = Some enc \<and>
           enc \<lparr>env_data = JObj [], env_expires = now + maxAge_of opts\<rparr> = Some c \<and>
           w1 = push_header (data_cookie opts c)
                  (set_meta (Some \<lparr>sessionId = newId, expiresTime = now + maxAge_of opts\<rparr>) w))"
  proof
    assume c: "cookie_create ciph opts now newId userData w = Inr (created, w1)"
    from cookie_create_result [OF c] i
    show "created = JObj [] \<and>
        (\<exists>enc c. createCipher ciph (secret opts) newId = Some enc \<and>
           enc \<lparr>env_data = JObj [], env_expires = now + maxAge_of opts\<rparr> = Some c \<and>
           w1 = push_header (data_cookie opts c)
                  (set_meta (Some \<lparr>sessionId = newId, expiresTime = now + maxAge_of opts\<rparr>) w))"
      by auto
  qed
  moreover have "ctx_get s = userData \<and> userData \<noteq> None \<longrightarrow>
        calls (snd (regenerate cfg s)) = calls s @ [StoreCreate userData]"
    by (auto simp: regenerate_passes_data)
  moreover have "\<not> truthy_opt None \<and> \<not> truthy_opt (Some (JStr [])) \<and> \<not> truthy_opt (Some (JNum 0))"
    by simp
  ultimately show ?thesis using i [of req] by blast
qed

text \<open>
  Creating with the empty string.
\<close>

theorem create_replaces_falsy_data_witness:
  "dataCreator (scenarioOptions False False) = None \<and>
   \<not> truthy_opt (Some (JStr [])) \<and>
   cookie_create (book_cipher scenarioBook) (scenarioOptions False False) 0 ''01ARZ3NDEK''
      (Some (JStr [])) (scenarioWorld [] None)
     = Inr (JObj [],
        \<lparr>sessionHeaderCtx = [data_cookie (scenarioOptions False False) ''c-empty-1000''],
         ext = \<lparr>sessionMetaDataCtx = Some \<lparr>sessionId = ''01ARZ3NDEK'', expiresTime = 1000\<rparr>,
                requestInfo = \<lparr>cookies = []\<rparr>\<rparr>\<rparr>) \<and>
   initialData (scenarioOptions False False) noRequest (Some (JStr [])) = JObj []"
proof -
  let ?O = "scenarioOptions False False"
  let ?w1 = "\<lparr>sessionHeaderCtx = [data_cookie ?O ''c-empty-1000''],
         ext = \<lparr>sessionMetaDataCtx = Some \<lparr>sessionId = ''01ARZ3NDEK'', expiresTime = 1000\<rparr>,
                requestInfo = \<lparr>cookies = []\<rparr>\<rparr>\<rparr>"
  have a: "dataCreator ?O = None"
    by (simp add: scenarioOptions_def)
  have b: "\<not> truthy_opt (Some (JStr []))"
    by simp
  have c: "cookie_create (book_cipher scenarioBook) ?O 0 ''01ARZ3NDEK'' (Some (JStr []))
      (scenarioWorld [] None) = Inr (JObj [], ?w1)"
    by (simp add: cookie_create_def book_cipher_def scenarioBook_def scenarioOptions_def
        scenarioWorld_def initialData_def user1_def maxAge_of_def defaultCookieOptions_def
        set_meta_def push_header_def)
  from create_replaces_falsy_data [OF a b, where req = noRequest]
  have d: "initialData ?O noRequest (Some (JStr [])) = JObj []"
    by blast
  from a b c d show ?thesis by blast
qed

end
